theory Spec2Isabelle
  imports Main "HOL-Library.Sublist"
begin

section \<open>The storage client wrapper (src/libs/aws/s3/s3.ts)\<close>

text \<open>
  The wrapper is a thin layer over the object-store SDK. The SDK client and the remote
  store are not part of the repository: they enter the model as parameters
  (\<open>send\<close> for \<^verbatim>\<open>s3Client.send\<close>, \<open>getSignedUrl\<close> for the presigner), and every
  wrapper function returns, next to its result, the trace of the effects it performed
  (commands sent, presign requests, console output), in program order.
  A rejected promise or a thrown exception is the \<open>Inl\<close> of a sum; \<^verbatim>\<open>undefined\<close> is
  \<open>None\<close>.
\<close>

subsection \<open>JavaScript values\<close>

text \<open>\<^verbatim>\<open>process.env\<close>: a variable that is not set reads as \<^verbatim>\<open>undefined\<close>.\<close>

type_synonym env = "string \<rightharpoonup> string"

text \<open>\<^verbatim>\<open>x || ""\<close> on a \<^verbatim>\<open>string | undefined\<close>: \<^verbatim>\<open>undefined\<close> and \<^verbatim>\<open>""\<close> are falsy.\<close>

definition or_empty :: "string option \<Rightarrow> string" where
  "or_empty x = (case x of None \<Rightarrow> '''' | Some s \<Rightarrow> (if s = '''' then '''' else s))"

text \<open>Truthiness of a \<^verbatim>\<open>string | undefined\<close>, as \<^verbatim>\<open>if (x)\<close> tests it.\<close>

definition truthy :: "string option \<Rightarrow> bool" where
  "truthy x = (case x of None \<Rightarrow> False | Some s \<Rightarrow> s \<noteq> '''')"

text \<open>A \<^verbatim>\<open>string | undefined\<close> inside a template literal: \<^verbatim>\<open>`${undefined}`\<close> is
  the text \<^verbatim>\<open>undefined\<close>.\<close>

definition template :: "string option \<Rightarrow> string" where
  "template x = (case x of None \<Rightarrow> ''undefined'' | Some s \<Rightarrow> s)"

text \<open>What can be thrown: whatever the SDK raises (\<open>ProviderError\<close>, opaque to this
  code), the \<^verbatim>\<open>TypeError\<close> of a property read on \<^verbatim>\<open>null\<close>, and \<^verbatim>\<open>new Error(msg)\<close>.\<close>

datatype js_error = ProviderError string | TypeError string | Error string

subsection \<open>SDK types\<close>

record S3ClientConfig =
  region :: "string option"
  accessKeyId :: string
  secretAccessKey :: string

record PutObjectCommandInput =
  Bucket :: string
  Key :: string
  Body :: "string option"
  ContentType :: "string option"
  ACL :: "string option"

record GetObjectCommandInput =
  Bucket :: string
  Key :: "string option"

text \<open>The two paging fields of a list request are part of the SDK's input type; the
  wrapper never sets them.\<close>

record ListObjectsV2CommandInput =
  Bucket :: string
  Prefix :: string
  ContinuationToken :: "string option"
  MaxKeys :: "nat option"

datatype command =
    PutObjectCommand PutObjectCommandInput
  | GetObjectCommand GetObjectCommandInput
  | ListObjectsV2Command ListObjectsV2CommandInput

text \<open>One listed object (the SDK's \<^verbatim>\<open>_Object\<close>; every field is optional there).\<close>

record S3Object =
  Key :: "string option"
  LastModified :: "nat option"
  Size :: "nat option"
  ETag :: "string option"

text \<open>The response of a command. Only a list response carries \<open>Contents\<close> and the
  paging fields.\<close>

record CommandOutput =
  Contents :: "S3Object list option"
  IsTruncated :: "bool option"
  NextContinuationToken :: "string option"

type_synonym provider = "S3ClientConfig \<Rightarrow> command \<Rightarrow> js_error + CommandOutput"

type_synonym presigner = "S3ClientConfig \<Rightarrow> command \<Rightarrow> int \<Rightarrow> js_error + string"

subsection \<open>Parameters of an upload (interface UploadParams)\<close>

record UploadParams =
  Bucket :: string
  Key :: string
  Body :: string
  ContentType :: "string option"
  ACL :: "string option"

subsection \<open>Result types of the listing and of the page\<close>

text \<open>One element of the listing's result: \<^verbatim>\<open>{...item, key: item.Key, lastModified:
  item.LastModified, size: item.Size}\<close>, the listed object extended by three fields
  (\<open>key\<close>, \<open>lastModified\<close>, \<open>size\<close>; the suffix tells them from the page's fields of
  the same names).\<close>

record FileDescriptor = S3Object +
  key_d :: "string option"
  lastModified_d :: "nat option"
  size_d :: "nat option"

text \<open>One element of the page's \<^verbatim>\<open>fileUrls\<close>: \<^verbatim>\<open>{url, key, size, lastModified, mimeType}\<close>.\<close>

record FileUrl =
  url :: string
  key_u :: "string option"
  size_u :: "nat option"
  lastModified_u :: "nat option"
  mimeType :: "string option"

subsection \<open>Effects\<close>

datatype logged =
    Str string
  | Err js_error
  | Params UploadParams
  | Opt "string option"
  | Files "FileDescriptor list"
  | Urls "FileUrl list"

datatype event =
    Send command
  | GetSignedUrl command int
  | ConsoleInfo "logged list"
  | ConsoleError "logged list"
  | ConsoleLog "logged list"
  | RevalidatePath string

text \<open>The commands a trace sent to the provider, in order.\<close>

fun sent :: "event list \<Rightarrow> command list" where
  "sent [] = []"
| "sent (Send c # es) = c # sent es"
| "sent (_ # es) = sent es"

text \<open>The presign requests of a trace, with the lifetime each asked for.\<close>

fun presigned :: "event list \<Rightarrow> (command \<times> int) list" where
  "presigned [] = []"
| "presigned (GetSignedUrl c t # es) = (c, t) # presigned es"
| "presigned (_ # es) = presigned es"

subsection \<open>The client\<close>

text \<open>\<^verbatim>\<open>const s3Client = new S3Client({region: process.env.AWS_REGION, credentials:
  {accessKeyId: process.env.AWS_ACCESS_KEY_ID || "", secretAccessKey:
  process.env.AWS_SECRET_ACCESS_KEY || ""}})\<close>: the configuration the client is built
  from.\<close>

definition s3Client :: "env \<Rightarrow> S3ClientConfig" where
  "s3Client env =
     \<lparr>region = env ''AWS_REGION'',
      accessKeyId = or_empty (env ''AWS_ACCESS_KEY_ID''),
      secretAccessKey = or_empty (env ''AWS_SECRET_ACCESS_KEY'')\<rparr>"

subsection \<open>uploadFileToS3\<close>

definition uploadFileToS3 ::
  "env \<Rightarrow> provider \<Rightarrow> UploadParams \<Rightarrow> (js_error + unit) \<times> event list" where
  "uploadFileToS3 env send params =
     (let uploadParams0 =
            \<lparr>PutObjectCommandInput.Bucket = UploadParams.Bucket params,
             PutObjectCommandInput.Key = UploadParams.Key params,
             PutObjectCommandInput.Body = Some (UploadParams.Body params),
             PutObjectCommandInput.ContentType = UploadParams.ContentType params,
             PutObjectCommandInput.ACL = None\<rparr>;
          uploadParams =
            (if truthy (UploadParams.ACL params)
             then uploadParams0\<lparr>PutObjectCommandInput.ACL := UploadParams.ACL params\<rparr>
             else uploadParams0);
          command = PutObjectCommand uploadParams
      in case send (s3Client env) command of
           Inr _ \<Rightarrow>
             (Inr (),
              [Send command,
               ConsoleInfo [Str (''Upload successful: s3://'' @ UploadParams.Bucket params
                                  @ ''/'' @ UploadParams.Key params)]])
         | Inl error \<Rightarrow>
             (Inl error,
              [Send command,
               ConsoleError [Str ''Error during file upload:'', Err error]]))"

subsection \<open>getPublicUrl\<close>

definition getPublicUrl :: "env \<Rightarrow> string \<Rightarrow> string \<Rightarrow> string" where
  "getPublicUrl env bucketName key =
     ''https://'' @ bucketName @ ''.s3.'' @ template (env ''AWS_REGION'')
       @ ''.amazonaws.com/'' @ key"

subsection \<open>generateUploadSignedUrl, generateGetSignedUrl\<close>

text \<open>The default parameter \<^verbatim>\<open>expiresIn = 300\<close> applies when the argument is omitted
  (\<open>None\<close>).\<close>

definition default_arg :: "int option \<Rightarrow> int \<Rightarrow> int" where
  "default_arg arg d = (case arg of None \<Rightarrow> d | Some v \<Rightarrow> v)"

definition generateUploadSignedUrl ::
  "env \<Rightarrow> presigner \<Rightarrow> string \<Rightarrow> string \<Rightarrow> string \<Rightarrow> int option
     \<Rightarrow> (js_error + string) \<times> event list" where
  "generateUploadSignedUrl env getSignedUrl bucket key contentType expiresIn_arg =
     (let expiresIn = default_arg expiresIn_arg 300;
          command = PutObjectCommand
            \<lparr>PutObjectCommandInput.Bucket = bucket,
             PutObjectCommandInput.Key = key,
             PutObjectCommandInput.Body = None,
             PutObjectCommandInput.ContentType = Some contentType,
             PutObjectCommandInput.ACL = None\<rparr>
      in (getSignedUrl (s3Client env) command expiresIn, [GetSignedUrl command expiresIn]))"

text \<open>The declared type of \<open>key\<close> is \<^verbatim>\<open>string\<close>; the page passes \<^verbatim>\<open>file.key as string\<close>,
  which is \<^verbatim>\<open>undefined\<close> at run time when the listed object has no key, so the model
  keeps the option.\<close>

definition generateGetSignedUrl ::
  "env \<Rightarrow> presigner \<Rightarrow> string \<Rightarrow> string option \<Rightarrow> int option
     \<Rightarrow> (js_error + string) \<times> event list" where
  "generateGetSignedUrl env getSignedUrl bucket key expiresIn_arg =
     (let expiresIn = default_arg expiresIn_arg 300;
          command = GetObjectCommand
            \<lparr>GetObjectCommandInput.Bucket = bucket,
             GetObjectCommandInput.Key = key\<rparr>
      in (getSignedUrl (s3Client env) command expiresIn, [GetSignedUrl command expiresIn]))"

subsection \<open>listFilesInS3Path\<close>

text \<open>The callback of \<^verbatim>\<open>response.Contents?.map\<close>.\<close>

definition describe :: "S3Object \<Rightarrow> FileDescriptor" where
  "describe item =
     S3Object.extend item
       (FileDescriptor.fields (S3Object.Key item) (LastModified item) (Size item))"

definition listFilesInS3Path ::
  "env \<Rightarrow> provider \<Rightarrow> string \<Rightarrow> string \<Rightarrow> (js_error + FileDescriptor list) \<times> event list" where
  "listFilesInS3Path env send bucket prefix_arg =
     (let command = ListObjectsV2Command
            \<lparr>ListObjectsV2CommandInput.Bucket = bucket,
             Prefix = prefix_arg,
             ContinuationToken = None,
             MaxKeys = None\<rparr>
      in case send (s3Client env) command of
           Inr response \<Rightarrow>
             (Inr (case Contents response of
                     Some items \<Rightarrow> map describe items
                   | None \<Rightarrow> []),
              [Send command])
         | Inl error \<Rightarrow>
             (Inl error,
              [Send command,
               ConsoleError [Str ''Error listing S3 files:'', Err error]]))"

section \<open>The page controller (upload page)\<close>

subsection \<open>Form data\<close>

text \<open>A \<^verbatim>\<open>File\<close> of the form: its \<^verbatim>\<open>name\<close>, \<^verbatim>\<open>size\<close>, \<^verbatim>\<open>type\<close> and the bytes that
  \<^verbatim>\<open>arrayBuffer()\<close> yields.\<close>

record File =
  name_f :: string
  size_f :: nat
  type_f :: string
  arrayBuffer_f :: string

text \<open>\<^verbatim>\<open>formData.get(name)\<close> is a \<^verbatim>\<open>File\<close>, a string, or \<^verbatim>\<open>null\<close> when the field is
  missing (\<open>None\<close>). The casts \<^verbatim>\<open>as File\<close> and \<^verbatim>\<open>as string\<close> do nothing at run time.\<close>

datatype FormDataEntryValue = FileEntry File | StringEntry string

type_synonym FormData = "string \<rightharpoonup> FormDataEntryValue"

subsection \<open>uploadAction\<close>

text \<open>
  The three shapes of \<^verbatim>\<open>formData.get("file")\<close>, each followed through the statements of
  the handler in order:
  \<^item> \<^verbatim>\<open>null\<close>: \<^verbatim>\<open>!file\<close> holds, the message is logged, and the next statement reads
    \<^verbatim>\<open>file.size\<close> on \<^verbatim>\<open>null\<close>, which throws a \<^verbatim>\<open>TypeError\<close>;
  \<^item> a string: \<^verbatim>\<open>!file\<close> holds for the empty string only; \<^verbatim>\<open>file.size\<close> and
    \<^verbatim>\<open>file.name\<close> are \<^verbatim>\<open>undefined\<close>, so the size check does not fire and the name check
    throws;
  \<^item> a \<^verbatim>\<open>File\<close> (an object, so \<^verbatim>\<open>!file\<close> is false): the size check, the name check, the
    upload.
\<close>

definition uploadAction ::
  "env \<Rightarrow> provider \<Rightarrow> FormData \<Rightarrow> (js_error + unit) \<times> event list" where
  "uploadAction env send formData =
     (case formData ''file'' of
        None \<Rightarrow>
          (Inl (TypeError ''Cannot read properties of null (reading 'size')''),
           [ConsoleError [Str ''File is required'']])
      | Some (StringEntry s) \<Rightarrow>
          (Inl (Error ''File name is required''),
           (if s = '''' then [ConsoleError [Str ''File is required'']] else []))
      | Some (FileEntry file) \<Rightarrow>
          (let logged_empty =
                 (if size_f file = 0 then [ConsoleError [Str ''File is empty'']] else []);
               privateFile = formData ''private'';
               isPrivate = (privateFile = Some (StringEntry ''on'')
                            \<or> privateFile = Some (StringEntry ''true''))
           in if name_f file = ''''
              then (Inl (Error ''File name is required''), logged_empty)
              else
                (let buffer = arrayBuffer_f file;
                     uploadParams =
                       \<lparr>UploadParams.Bucket = or_empty (env ''AWS_BUCKET_NAME''),
                        UploadParams.Key = ''test/'' @ name_f file,
                        UploadParams.Body = buffer,
                        UploadParams.ContentType = Some (type_f file),
                        UploadParams.ACL =
                          Some (if isPrivate then ''private'' else ''public-read'')\<rparr>;
                     uploaded = uploadFileToS3 env send uploadParams;
                     trace = logged_empty @ [ConsoleLog [Params uploadParams]] @ snd uploaded
                 in case fst uploaded of
                      Inl error \<Rightarrow> (Inl error, trace)
                    | Inr _ \<Rightarrow> (Inr (), trace @ [RevalidatePath ''/upload'']))))"

subsection \<open>UploadPage\<close>





section \<open>Vocabulary of the properties\<close>

subsection \<open>Requests and responses\<close>

text \<open>The list request \<open>listFilesInS3Path\<close> builds from its two arguments.\<close>

definition list_command :: "string \<Rightarrow> string \<Rightarrow> command" where
  "list_command bucket p =
     ListObjectsV2Command
       \<lparr>ListObjectsV2CommandInput.Bucket = bucket, Prefix = p,
        ContinuationToken = None, MaxKeys = None\<rparr>"

text \<open>The objects of one response: the page it carries.\<close>

definition page_of :: "CommandOutput \<Rightarrow> S3Object list" where
  "page_of response = (case Contents response of None \<Rightarrow> [] | Some items \<Rightarrow> items)"

text \<open>A key that is present and starts with the prefix.\<close>

definition key_under :: "string \<Rightarrow> string option \<Rightarrow> bool" where
  "key_under p k = (case k of None \<Rightarrow> False | Some s \<Rightarrow> prefix p s)"

text \<open>The put request \<open>uploadFileToS3\<close> builds from its parameters.\<close>

definition put_command :: "UploadParams \<Rightarrow> command" where
  "put_command params =
     PutObjectCommand
       \<lparr>PutObjectCommandInput.Bucket = UploadParams.Bucket params,
        PutObjectCommandInput.Key = UploadParams.Key params,
        PutObjectCommandInput.Body = Some (UploadParams.Body params),
        PutObjectCommandInput.ContentType = UploadParams.ContentType params,
        PutObjectCommandInput.ACL =
          (if truthy (UploadParams.ACL params) then UploadParams.ACL params else None)\<rparr>"

text \<open>The \<^verbatim>\<open>uploadParams\<close> that \<open>uploadAction\<close> builds for a submitted file.\<close>

definition upload_params_of :: "env \<Rightarrow> FormData \<Rightarrow> File \<Rightarrow> UploadParams" where
  "upload_params_of env formData f =
     \<lparr>UploadParams.Bucket = or_empty (env ''AWS_BUCKET_NAME''),
      UploadParams.Key = ''test/'' @ name_f f,
      UploadParams.Body = arrayBuffer_f f,
      UploadParams.ContentType = Some (type_f f),
      UploadParams.ACL =
        Some (if formData ''private'' = Some (StringEntry ''on'')
                 \<or> formData ''private'' = Some (StringEntry ''true'')
              then ''private'' else ''public-read'')\<rparr>"

subsection \<open>URL syntax\<close>

text \<open>
  The syntax of RFC 3986 for an \<^verbatim>\<open>https\<close> URL whose authority is a registered name:
  \<^verbatim>\<open>"https://" reg-name path-abempty [ "?" query ] [ "#" fragment ]\<close>, with
  \<^verbatim>\<open>reg-name = *( unreserved / pct-encoded / sub-delims )\<close>,
  \<^verbatim>\<open>pchar = unreserved / pct-encoded / sub-delims / ":" / "@"\<close>, a path of
  \<^verbatim>\<open>pchar\<close> and \<^verbatim>\<open>"/"\<close>, a query and a fragment of \<^verbatim>\<open>pchar\<close>, \<^verbatim>\<open>"/"\<close> and \<^verbatim>\<open>"?"\<close>,
  and \<^verbatim>\<open>pct-encoded = "%" HEXDIG HEXDIG\<close>. A space is in none of these classes.
\<close>

definition unreserved :: "char \<Rightarrow> bool" where
  "unreserved c \<longleftrightarrow>
     c \<in> set ''abcdefghijklmnopqrstuvwxyzABCDEFGHIJKLMNOPQRSTUVWXYZ0123456789-._~''"

definition sub_delim :: "char \<Rightarrow> bool" where
  "sub_delim c \<longleftrightarrow> c \<in> set ''!$&()*+,;='' \<or> c = CHR 0x27"

definition hexdig :: "char \<Rightarrow> bool" where
  "hexdig c \<longleftrightarrow> c \<in> set ''0123456789abcdefABCDEF''"

definition reg_name_char :: "char \<Rightarrow> bool" where
  "reg_name_char c \<longleftrightarrow> unreserved c \<or> sub_delim c"

definition pchar :: "char \<Rightarrow> bool" where
  "pchar c \<longleftrightarrow> unreserved c \<or> sub_delim c \<or> c = CHR '':'' \<or> c = CHR ''@''"

definition path_char :: "char \<Rightarrow> bool" where
  "path_char c \<longleftrightarrow> pchar c \<or> c = CHR ''/''"

definition query_char :: "char \<Rightarrow> bool" where
  "query_char c \<longleftrightarrow> pchar c \<or> c = CHR ''/'' \<or> c = CHR ''?''"

text \<open>Every character is allowed, or starts a percent-escape of two hex digits.\<close>

fun escaped_ok :: "(char \<Rightarrow> bool) \<Rightarrow> string \<Rightarrow> bool" where
  "escaped_ok ok [] = True"
| "escaped_ok ok (c # cs) =
     (if c = CHR ''%''
      then 2 \<le> length cs \<and> hexdig (cs ! 0) \<and> hexdig (cs ! 1) \<and> escaped_ok ok (drop 2 cs)
      else ok c \<and> escaped_ok ok cs)"

definition valid_url :: "string \<Rightarrow> bool" where
  "valid_url s \<longleftrightarrow>
     prefix ''https://'' s \<and>
     (let after_scheme = drop 8 s;
          host = takeWhile (\<lambda>c. c \<notin> set ''/?#'') after_scheme;
          rest = dropWhile (\<lambda>c. c \<notin> set ''/?#'') after_scheme;
          path_query = takeWhile (\<lambda>c. c \<noteq> CHR ''#'') rest;
          fragment = dropWhile (\<lambda>c. c \<noteq> CHR ''#'') rest
      in escaped_ok reg_name_char host
         \<and> escaped_ok query_char path_query
         \<and> (fragment = [] \<or> escaped_ok query_char (tl fragment)))"

section \<open>An example environment\<close>

text \<open>
  Stand-ins for the provider, used to run the model on concrete inputs: a store of four
  objects, a provider that answers a list request with the first \<open>page\<close> objects under
  the prefix (and flags what it left out) and accepts every other command, a provider
  that refuses everything, and a presigner that marks the key it signs.
\<close>

definition stored :: "string \<Rightarrow> nat \<Rightarrow> S3Object" where
  "stored k n = \<lparr>S3Object.Key = Some k, LastModified = Some 0, Size = Some n, ETag = None\<rparr>"

definition example_store :: "S3Object list" where
  "example_store =
     [stored ''test/a.png'' 10, stored ''other/c.txt'' 5, stored ''test/b.pdf'' 20,
      stored ''test/my file.pdf'' 30]"

definition paged_provider :: "nat \<Rightarrow> S3Object list \<Rightarrow> provider" where
  "paged_provider page store config c =
     (case c of
        ListObjectsV2Command input \<Rightarrow>
          (let matching = filter (\<lambda>item. key_under (Prefix input) (S3Object.Key item)) store;
               items = take page matching
           in Inr \<lparr>Contents = (if items = [] then None else Some items),
                   IsTruncated = Some (page < length matching),
                   NextContinuationToken =
                     (if page < length matching then Some ''token'' else None)\<rparr>)
      | _ \<Rightarrow> Inr \<lparr>Contents = None, IsTruncated = None, NextContinuationToken = None\<rparr>)"


definition denying_provider :: provider where
  "denying_provider config c = Inl (ProviderError ''AccessDenied'')"



definition example_params :: "string option \<Rightarrow> UploadParams" where
  "example_params acl =
     \<lparr>UploadParams.Bucket = ''demo-bucket'', UploadParams.Key = ''test/a.png'',
      UploadParams.Body = ''PNG'', UploadParams.ContentType = Some ''image/png'',
      UploadParams.ACL = acl\<rparr>"

definition example_file :: "string \<Rightarrow> string \<Rightarrow> File" where
  "example_file n bytes =
     \<lparr>name_f = n, size_f = length bytes, type_f = ''text/plain'', arrayBuffer_f = bytes\<rparr>"

definition example_form :: "File \<Rightarrow> FormData" where
  "example_form f = [''file'' \<mapsto> FileEntry f]"

definition example_env :: env where
  "example_env = [''AWS_REGION'' \<mapsto> ''us-east-1'']"

section \<open>Properties of the storage client wrapper\<close>

subsection \<open>Traces\<close>

lemma sent_append: "sent (xs @ ys) = sent xs @ sent ys"
  by (induction xs rule: sent.induct) simp_all

subsection \<open>getPublicUrl\<close>

lemma escaped_ok_plain:
  "(\<And>c. c \<in> set cs \<Longrightarrow> ok c \<and> c \<noteq> CHR ''%'') \<Longrightarrow> escaped_ok ok cs"
  by (induction cs) auto

lemma reg_name_char_plain:
  "reg_name_char c \<Longrightarrow> c \<notin> set ''/?#'' \<and> c \<noteq> CHR ''%''"
  by (auto simp: reg_name_char_def unreserved_def sub_delim_def)

lemma path_char_plain:
  "path_char c \<Longrightarrow> query_char c \<and> c \<noteq> CHR ''#'' \<and> c \<noteq> CHR ''%''"
  by (auto simp: path_char_def query_char_def pchar_def unreserved_def sub_delim_def)

lemma valid_url_host_path:
  assumes host: "\<And>c. c \<in> set host \<Longrightarrow> reg_name_char c"
    and path: "\<And>c. c \<in> set path \<Longrightarrow> path_char c"
  shows "valid_url (''https://'' @ host @ ''/'' @ path)"
proof -
  let ?stop = "\<lambda>c. c \<notin> set ''/?#''"
  let ?hash = "\<lambda>c. c \<noteq> CHR ''#''"
  have all_host: "\<forall>c\<in>set host. ?stop c"
    using host reg_name_char_plain by blast
  have tw: "takeWhile ?stop (host @ CHR ''/'' # path) = host"
    using all_host by (simp add: takeWhile_tail)
  have dw: "dropWhile ?stop (host @ CHR ''/'' # path) = CHR ''/'' # path"
    using all_host by (simp add: dropWhile_append3)
  have all_path: "\<forall>c\<in>set (CHR ''/'' # path). ?hash c"
    using path path_char_plain by auto
  have twp: "takeWhile ?hash (CHR ''/'' # path) = CHR ''/'' # path"
    using all_path by (simp only: takeWhile_eq_all_conv)
  have dwp: "dropWhile ?hash (CHR ''/'' # path) = []"
    using all_path by (simp only: dropWhile_eq_Nil_conv)
  have h_ok: "escaped_ok reg_name_char host"
    using host reg_name_char_plain by (intro escaped_ok_plain) blast
  have p_ok: "escaped_ok query_char (CHR ''/'' # path)"
  proof (rule escaped_ok_plain)
    fix c assume "c \<in> set (CHR ''/'' # path)"
    then show "query_char c \<and> c \<noteq> CHR ''%''"
      using path path_char_plain by (auto simp: query_char_def)
  qed
  have d8: "drop 8 (''https://'' @ host @ ''/'' @ path) = host @ CHR ''/'' # path"
    by simp
  have pre: "prefix ''https://'' (''https://'' @ host @ ''/'' @ path)"
    by simp
  show ?thesis
    unfolding valid_url_def Let_def d8 tw dw twp dwp
    using pre h_ok p_ok by simp
qed

text \<open>
  Claim C1, as stated: \<open>getPublicUrl\<close> returns a syntactically valid URL for any key. It
  does not: the key is copied into the URL as it is, and the key of a file named
  \<^verbatim>\<open>my file.pdf\<close>, which \<open>uploadAction\<close> stores as \<^verbatim>\<open>test/my file.pdf\<close>, puts a space
  into the result.
\<close>

theorem getPublicUrl_space_counterexample:
  "\<not> valid_url (getPublicUrl example_env ''demo-bucket'' ''test/my file.pdf'')"
  by (simp add: getPublicUrl_def example_env_def template_def valid_url_def Let_def
        query_char_def pchar_def unreserved_def sub_delim_def reg_name_char_def)

text \<open>
  Claim C1, amended: for every bucket name and key, \<open>getPublicUrl\<close> is pure string
  formatting (it takes no provider and performs no effect) and returns
  \<^verbatim>\<open>https://{bucket}.s3.{AWS_REGION}.amazonaws.com/{key}\<close>, whether or not an object has
  that key; bucket, region and key are copied without percent-encoding, so the result is
  a syntactically valid URL when bucket and region consist of characters of a registered
  name and the key of path characters.
\<close>

theorem getPublicUrl_format:
  "getPublicUrl env bucket k =
     ''https://'' @ bucket @ ''.s3.'' @ template (env ''AWS_REGION'') @ ''.amazonaws.com/'' @ k
   \<and> (list_all reg_name_char bucket
        \<and> list_all reg_name_char (template (env ''AWS_REGION''))
        \<and> list_all path_char k
       \<longrightarrow> valid_url (getPublicUrl env bucket k))"
proof (intro conjI impI)
  show "getPublicUrl env bucket k =
     ''https://'' @ bucket @ ''.s3.'' @ template (env ''AWS_REGION'') @ ''.amazonaws.com/'' @ k"
    by (simp add: getPublicUrl_def)
next
  assume a: "list_all reg_name_char bucket
        \<and> list_all reg_name_char (template (env ''AWS_REGION''))
        \<and> list_all path_char k"
  let ?host = "bucket @ ''.s3.'' @ template (env ''AWS_REGION'') @ ''.amazonaws.com''"
  have f1: "\<forall>c\<in>set ''.s3.''. reg_name_char c"
    by (simp add: reg_name_char_def unreserved_def)
  have f2: "\<forall>c\<in>set ''.amazonaws.com''. reg_name_char c"
    by (simp add: reg_name_char_def unreserved_def)
  have host: "\<And>c. c \<in> set ?host \<Longrightarrow> reg_name_char c"
    using a f1 f2 unfolding set_append list_all_iff by blast
  have path: "\<And>c. c \<in> set k \<Longrightarrow> path_char c"
    using a unfolding list_all_iff by blast
  have "valid_url (''https://'' @ ?host @ ''/'' @ k)"
    using host path by (rule valid_url_host_path)
  moreover have "getPublicUrl env bucket k = ''https://'' @ ?host @ ''/'' @ k"
    by (simp add: getPublicUrl_def)
  ultimately show "valid_url (getPublicUrl env bucket k)" by simp
qed

text \<open>The amended claim at the key of an object that the example store does not hold.\<close>

theorem getPublicUrl_format_witness:
  "Some ''test/missing.png'' \<notin> set (map S3Object.Key example_store)
   \<and> list_all reg_name_char ''demo-bucket''
   \<and> list_all reg_name_char (template (example_env ''AWS_REGION''))
   \<and> list_all path_char ''test/missing.png''
   \<and> getPublicUrl example_env ''demo-bucket'' ''test/missing.png''
       = ''https://demo-bucket.s3.us-east-1.amazonaws.com/test/missing.png''
   \<and> valid_url (getPublicUrl example_env ''demo-bucket'' ''test/missing.png'')"
proof -
  have s: "Some ''test/missing.png'' \<notin> set (map S3Object.Key example_store)"
    by (simp add: example_store_def stored_def)
  have h: "list_all reg_name_char ''demo-bucket''
     \<and> list_all reg_name_char (template (example_env ''AWS_REGION''))
     \<and> list_all path_char ''test/missing.png''"
    by (simp add: example_env_def template_def reg_name_char_def path_char_def pchar_def
          unreserved_def)
  have e: "''https://'' @ ''demo-bucket'' @ ''.s3.'' @ template (example_env ''AWS_REGION'')
             @ ''.amazonaws.com/'' @ ''test/missing.png''
       = ''https://demo-bucket.s3.us-east-1.amazonaws.com/test/missing.png''"
    by (simp add: example_env_def template_def)
  note t = getPublicUrl_format[of example_env "''demo-bucket''" "''test/missing.png''"]
  from t h have v: "valid_url (getPublicUrl example_env ''demo-bucket'' ''test/missing.png'')"
    by blast
  from t e have u: "getPublicUrl example_env ''demo-bucket'' ''test/missing.png''
       = ''https://demo-bucket.s3.us-east-1.amazonaws.com/test/missing.png''"
    by (simp only:)
  from s h u v show ?thesis by blast
qed

subsection \<open>listFilesInS3Path\<close>

lemma example_first_page:
  "paged_provider 2 example_store (s3Client Map.empty) (list_command ''teqhire-store-dev'' ''test'')
     = Inr \<lparr>Contents = Some [stored ''test/a.png'' 10, stored ''test/b.pdf'' 20],
            IsTruncated = Some True, NextContinuationToken = Some ''token''\<rparr>"
  by (simp add: paged_provider_def example_store_def list_command_def key_under_def stored_def)




text \<open>
  Claim C3: for every bucket and prefix, \<open>listFilesInS3Path\<close> issues exactly one list
  request, with no continuation token and no page size of its own, and returns the
  objects of that one response, whatever the response says about truncation; what the
  provider left out of the page is absent from the result, and no error is raised.
\<close>

theorem listFilesInS3Path_single_page:
  "sent (snd (listFilesInS3Path env send bucket p)) = [list_command bucket p]
   \<and> (\<forall>response. send (s3Client env) (list_command bucket p) = Inr response \<longrightarrow>
         fst (listFilesInS3Path env send bucket p) = Inr (map describe (page_of response)))"
  by (auto simp: listFilesInS3Path_def list_command_def page_of_def Let_def
        split: option.splits sum.splits)

text \<open>Three objects of the example store are under \<^verbatim>\<open>test\<close>; with a page of two, the
  provider flags the truncation and the result has two.\<close>

theorem listFilesInS3Path_single_page_witness:
  "paged_provider 2 example_store (s3Client Map.empty) (list_command ''teqhire-store-dev'' ''test'')
     = Inr \<lparr>Contents = Some [stored ''test/a.png'' 10, stored ''test/b.pdf'' 20],
            IsTruncated = Some True, NextContinuationToken = Some ''token''\<rparr>
   \<and> fst (listFilesInS3Path Map.empty (paged_provider 2 example_store)
            ''teqhire-store-dev'' ''test'')
       = Inr [describe (stored ''test/a.png'' 10), describe (stored ''test/b.pdf'' 20)]
   \<and> sent (snd (listFilesInS3Path Map.empty (paged_provider 2 example_store)
            ''teqhire-store-dev'' ''test''))
       = [list_command ''teqhire-store-dev'' ''test'']"
  using listFilesInS3Path_single_page[of Map.empty "paged_provider 2 example_store"
          "''teqhire-store-dev''" "''test''"] example_first_page
  by (simp add: page_of_def)

text \<open>
  Claim C10: for every bucket and prefix under which no objects exist, so that the
  provider's response has no \<^verbatim>\<open>Contents\<close>, \<open>listFilesInS3Path\<close> returns the empty list:
  neither an undefined value nor an error.
\<close>

theorem listFilesInS3Path_no_objects:
  assumes "send (s3Client env) (list_command bucket p) = Inr response"
    and "Contents response = None"
  shows "listFilesInS3Path env send bucket p = (Inr [], [Send (list_command bucket p)])"
  using assms by (simp add: listFilesInS3Path_def list_command_def Let_def)

theorem listFilesInS3Path_no_objects_witness:
  "paged_provider 2 example_store (s3Client Map.empty) (list_command ''teqhire-store-dev'' ''empty/'')
     = Inr \<lparr>Contents = None, IsTruncated = Some False, NextContinuationToken = None\<rparr>
   \<and> Contents \<lparr>Contents = None, IsTruncated = Some False, NextContinuationToken = None\<rparr> = None
   \<and> listFilesInS3Path Map.empty (paged_provider 2 example_store) ''teqhire-store-dev'' ''empty/''
       = (Inr [], [Send (list_command ''teqhire-store-dev'' ''empty/'')])"
proof -
  let ?r = "\<lparr>Contents = None, IsTruncated = Some False, NextContinuationToken = None\<rparr>"
  have r: "paged_provider 2 example_store (s3Client Map.empty)
             (list_command ''teqhire-store-dev'' ''empty/'') = Inr ?r"
    by (simp add: paged_provider_def example_store_def list_command_def key_under_def stored_def)
  have c: "Contents ?r = None" by simp
  from listFilesInS3Path_no_objects[where send = "paged_provider 2 example_store"
         and env = Map.empty, OF r c] r
  show ?thesis by simp
qed

subsection \<open>uploadFileToS3\<close>

lemma uploadFileToS3_eq:
  "uploadFileToS3 env send params =
     (case send (s3Client env) (put_command params) of
        Inr _ \<Rightarrow>
          (Inr (),
           [Send (put_command params),
            ConsoleInfo [Str (''Upload successful: s3://'' @ UploadParams.Bucket params
                               @ ''/'' @ UploadParams.Key params)]])
      | Inl e \<Rightarrow>
          (Inl e,
           [Send (put_command params),
            ConsoleError [Str ''Error during file upload:'', Err e]]))"
  by (cases "truthy (UploadParams.ACL params)")
     (simp_all add: uploadFileToS3_def put_command_def Let_def split: sum.splits)

lemma sent_uploadFileToS3:
  "sent (snd (uploadFileToS3 env send params)) = [put_command params]"
  by (simp add: uploadFileToS3_eq split: sum.splits)

lemma fst_uploadFileToS3:
  "fst (uploadFileToS3 env send params)
     = (case send (s3Client env) (put_command params) of Inl e \<Rightarrow> Inl e | Inr _ \<Rightarrow> Inr ())"
  by (simp add: uploadFileToS3_eq split: sum.splits)

text \<open>
  Claim C4: for every upload parameter set, when the provider signals an error during
  the put, \<open>uploadFileToS3\<close> fails with exactly that error (after logging it), and the
  command was sent once: there is no retry; when the provider succeeds, the operation
  returns success.
\<close>

theorem uploadFileToS3_error_unchanged:
  "sent (snd (uploadFileToS3 env send params)) = [put_command params]
   \<and> (\<forall>e. send (s3Client env) (put_command params) = Inl e \<longrightarrow>
          uploadFileToS3 env send params
            = (Inl e, [Send (put_command params),
                       ConsoleError [Str ''Error during file upload:'', Err e]]))
   \<and> (\<forall>response. send (s3Client env) (put_command params) = Inr response \<longrightarrow>
          fst (uploadFileToS3 env send params) = Inr ())"
  by (simp add: uploadFileToS3_eq split: sum.splits)

theorem uploadFileToS3_error_unchanged_witness:
  "denying_provider (s3Client Map.empty) (put_command (example_params None))
       = Inl (ProviderError ''AccessDenied'')
   \<and> fst (uploadFileToS3 Map.empty denying_provider (example_params None))
       = Inl (ProviderError ''AccessDenied'')
   \<and> sent (snd (uploadFileToS3 Map.empty denying_provider (example_params None)))
       = [put_command (example_params None)]
   \<and> paged_provider 2 example_store (s3Client Map.empty) (put_command (example_params None))
       = Inr \<lparr>Contents = None, IsTruncated = None, NextContinuationToken = None\<rparr>
   \<and> fst (uploadFileToS3 Map.empty (paged_provider 2 example_store) (example_params None))
       = Inr ()"
proof -
  have d: "denying_provider (s3Client Map.empty) (put_command (example_params None))
       = Inl (ProviderError ''AccessDenied'')"
    by (simp add: denying_provider_def)
  have a: "paged_provider 2 example_store (s3Client Map.empty) (put_command (example_params None))
       = Inr \<lparr>Contents = None, IsTruncated = None, NextContinuationToken = None\<rparr>"
    by (simp add: paged_provider_def put_command_def)
  from uploadFileToS3_error_unchanged[of Map.empty denying_provider "example_params None"]
       uploadFileToS3_error_unchanged[of Map.empty "paged_provider 2 example_store"
         "example_params None"]
       d a
  show ?thesis by simp
qed

text \<open>
  Claim C8: for every upload parameter set whose \<^verbatim>\<open>ACL\<close> is absent or falsy,
  \<open>uploadFileToS3\<close> sends a put request with no \<^verbatim>\<open>ACL\<close> field: no \<^verbatim>\<open>public-read\<close> default
  is put in its place.
\<close>

theorem uploadFileToS3_omits_absent_ACL:
  assumes "UploadParams.ACL params = None \<or> UploadParams.ACL params = Some ''''"
  shows "sent (snd (uploadFileToS3 env send params)) =
           [PutObjectCommand
              \<lparr>PutObjectCommandInput.Bucket = UploadParams.Bucket params,
               PutObjectCommandInput.Key = UploadParams.Key params,
               PutObjectCommandInput.Body = Some (UploadParams.Body params),
               PutObjectCommandInput.ContentType = UploadParams.ContentType params,
               PutObjectCommandInput.ACL = None\<rparr>]"
  using assms by (auto simp add: sent_uploadFileToS3 put_command_def truthy_def)

theorem uploadFileToS3_omits_absent_ACL_witness:
  "UploadParams.ACL (example_params None) = None
   \<and> sent (snd (uploadFileToS3 Map.empty denying_provider (example_params None))) =
       [PutObjectCommand
          \<lparr>PutObjectCommandInput.Bucket = ''demo-bucket'',
           PutObjectCommandInput.Key = ''test/a.png'',
           PutObjectCommandInput.Body = Some ''PNG'',
           PutObjectCommandInput.ContentType = Some ''image/png'',
           PutObjectCommandInput.ACL = None\<rparr>]
   \<and> UploadParams.ACL (example_params (Some '''')) = Some ''''
   \<and> sent (snd (uploadFileToS3 Map.empty denying_provider (example_params (Some '''')))) =
       [PutObjectCommand
          \<lparr>PutObjectCommandInput.Bucket = ''demo-bucket'',
           PutObjectCommandInput.Key = ''test/a.png'',
           PutObjectCommandInput.Body = Some ''PNG'',
           PutObjectCommandInput.ContentType = Some ''image/png'',
           PutObjectCommandInput.ACL = None\<rparr>]"
  using uploadFileToS3_omits_absent_ACL[of "example_params None" Map.empty denying_provider]
        uploadFileToS3_omits_absent_ACL[of "example_params (Some '''')" Map.empty denying_provider]
  by (simp add: example_params_def)

subsection \<open>Signed URLs\<close>

text \<open>
  Claim C9: for every bucket, key and content type, when the caller omits the expiration
  argument, \<open>generateUploadSignedUrl\<close> and \<open>generateGetSignedUrl\<close> each make one presign
  request, for a lifetime of exactly 300 seconds, and return what the presigner returns.
\<close>

theorem signed_urls_default_300:
  "presigned (snd (generateUploadSignedUrl env getSignedUrl bucket k contentType None))
     = [(PutObjectCommand
           \<lparr>PutObjectCommandInput.Bucket = bucket,
            PutObjectCommandInput.Key = k,
            PutObjectCommandInput.Body = None,
            PutObjectCommandInput.ContentType = Some contentType,
            PutObjectCommandInput.ACL = None\<rparr>, 300)]
   \<and> fst (generateUploadSignedUrl env getSignedUrl bucket k contentType None)
     = getSignedUrl (s3Client env)
         (PutObjectCommand
           \<lparr>PutObjectCommandInput.Bucket = bucket,
            PutObjectCommandInput.Key = k,
            PutObjectCommandInput.Body = None,
            PutObjectCommandInput.ContentType = Some contentType,
            PutObjectCommandInput.ACL = None\<rparr>) 300
   \<and> presigned (snd (generateGetSignedUrl env getSignedUrl bucket ko None))
     = [(GetObjectCommand
           \<lparr>GetObjectCommandInput.Bucket = bucket,
            GetObjectCommandInput.Key = ko\<rparr>, 300)]
   \<and> fst (generateGetSignedUrl env getSignedUrl bucket ko None)
     = getSignedUrl (s3Client env)
         (GetObjectCommand
           \<lparr>GetObjectCommandInput.Bucket = bucket,
            GetObjectCommandInput.Key = ko\<rparr>) 300"
  by (simp add: generateUploadSignedUrl_def generateGetSignedUrl_def default_arg_def Let_def)

section \<open>Properties of the page controller\<close>

subsection \<open>Configuration from the environment\<close>

lemma uploadAction_FileEntry:
  assumes "formData ''file'' = Some (FileEntry f)"
  shows "uploadAction env send formData =
     (let logged_empty = (if size_f f = 0 then [ConsoleError [Str ''File is empty'']] else [])
      in if name_f f = ''''
         then (Inl (Error ''File name is required''), logged_empty)
         else (let uploaded = uploadFileToS3 env send (upload_params_of env formData f);
                   trace = logged_empty @ [ConsoleLog [Params (upload_params_of env formData f)]]
                             @ snd uploaded
               in case fst uploaded of
                    Inl e \<Rightarrow> (Inl e, trace)
                  | Inr _ \<Rightarrow> (Inr (), trace @ [RevalidatePath ''/upload''])))"
  using assms by (simp add: uploadAction_def upload_params_of_def Let_def)

lemma uploadAction_named_file:
  assumes "formData ''file'' = Some (FileEntry f)" and "name_f f \<noteq> ''''"
  shows "sent (snd (uploadAction env send formData))
           = [put_command (upload_params_of env formData f)]
         \<and> fst (uploadAction env send formData)
           = (case send (s3Client env) (put_command (upload_params_of env formData f)) of
                Inl e \<Rightarrow> Inl e | Inr _ \<Rightarrow> Inr ())"
  using assms(2)
  by (simp add: uploadAction_FileEntry[where formData = formData and f = f, OF assms(1)]
        Let_def sent_append sent_uploadFileToS3 fst_uploadFileToS3 split: sum.splits)

text \<open>
  Claim C5, as stated: each of the four configuration values defaults to the empty string
  when its environment variable is absent. The region does not: with no \<^verbatim>\<open>AWS_REGION\<close>
  the client is configured with an undefined region, and a public URL carries the text
  \<^verbatim>\<open>undefined\<close> in its place.
\<close>

theorem absent_region_counterexample:
  "region (s3Client Map.empty) \<noteq> Some ''''
   \<and> getPublicUrl Map.empty ''demo-bucket'' ''test/a.png''
        = ''https://demo-bucket.s3.undefined.amazonaws.com/test/a.png''"
  by (simp add: s3Client_def getPublicUrl_def template_def)

text \<open>
  Claim C5, amended: when its environment variable is absent, the access key, the secret
  key and the bucket name each default to the empty string, and the region is left
  undefined in the client's configuration (a public URL then reads \<^verbatim>\<open>undefined\<close> for it);
  the configuration is built in every case, with no failure at startup.
\<close>

theorem absent_configuration_defaults:
  "(env ''AWS_ACCESS_KEY_ID'' = None \<longrightarrow> accessKeyId (s3Client env) = '''')
   \<and> (env ''AWS_SECRET_ACCESS_KEY'' = None \<longrightarrow> secretAccessKey (s3Client env) = '''')
   \<and> (env ''AWS_BUCKET_NAME'' = None \<and> formData ''file'' = Some (FileEntry f)
        \<and> name_f f \<noteq> '''' \<longrightarrow>
        (\<exists>input. sent (snd (uploadAction env send formData)) = [PutObjectCommand input]
           \<and> PutObjectCommandInput.Bucket input = ''''))
   \<and> (env ''AWS_REGION'' = None \<longrightarrow>
        region (s3Client env) = None
        \<and> getPublicUrl env bucket k
            = ''https://'' @ bucket @ ''.s3.undefined.amazonaws.com/'' @ k)"
proof (intro conjI impI)
  assume a: "env ''AWS_BUCKET_NAME'' = None \<and> formData ''file'' = Some (FileEntry f)
        \<and> name_f f \<noteq> ''''"
  then have "sent (snd (uploadAction env send formData))
               = [put_command (upload_params_of env formData f)]"
    using uploadAction_named_file[where formData = formData and f = f and env = env
            and send = send] by blast
  moreover have "UploadParams.Bucket (upload_params_of env formData f) = ''''"
    using a by (simp add: upload_params_of_def or_empty_def)
  ultimately show "\<exists>input. sent (snd (uploadAction env send formData)) = [PutObjectCommand input]
           \<and> PutObjectCommandInput.Bucket input = ''''"
    by (simp add: put_command_def)
qed (simp_all add: s3Client_def or_empty_def getPublicUrl_def template_def)

theorem absent_configuration_defaults_witness:
  "Map.empty ''AWS_ACCESS_KEY_ID'' = (None :: string option)
   \<and> accessKeyId (s3Client Map.empty) = ''''
   \<and> secretAccessKey (s3Client Map.empty) = ''''
   \<and> example_form (example_file ''a.txt'' ''hello'') ''file''
        = Some (FileEntry (example_file ''a.txt'' ''hello''))
   \<and> name_f (example_file ''a.txt'' ''hello'') \<noteq> ''''
   \<and> (\<exists>input. sent (snd (uploadAction Map.empty denying_provider
                              (example_form (example_file ''a.txt'' ''hello''))))
                  = [PutObjectCommand input]
           \<and> PutObjectCommandInput.Bucket input = '''')
   \<and> region (s3Client Map.empty) = None
   \<and> getPublicUrl Map.empty ''demo-bucket'' ''test/a.png''
        = ''https://demo-bucket.s3.undefined.amazonaws.com/test/a.png''"
  using absent_configuration_defaults[where env = Map.empty
          and formData = "example_form (example_file ''a.txt'' ''hello'')"
          and f = "example_file ''a.txt'' ''hello''"
          and send = denying_provider and bucket = "''demo-bucket''" and k = "''test/a.png''"]
  by (simp add: example_form_def example_file_def)

subsection \<open>uploadAction\<close>

text \<open>For a file that is present and empty, the handler logs \<^verbatim>\<open>File is empty\<close> and goes
  on: to the file-name check, which throws for an unnamed file, and for a named file to
  the upload, whose outcome is the handler's.\<close>

lemma uploadAction_empty_file:
  assumes "formData ''file'' = Some (FileEntry f)" and "size_f f = 0"
  shows "(\<exists>rest. snd (uploadAction env send formData)
                   = ConsoleError [Str ''File is empty''] # rest)
         \<and> (if name_f f = ''''
            then fst (uploadAction env send formData) = Inl (Error ''File name is required'')
            else sent (snd (uploadAction env send formData))
                   = [put_command (upload_params_of env formData f)]
                 \<and> fst (uploadAction env send formData)
                   = (case send (s3Client env) (put_command (upload_params_of env formData f)) of
                        Inl e \<Rightarrow> Inl e | Inr _ \<Rightarrow> Inr ()))"
proof (intro conjI)
  show "\<exists>rest. snd (uploadAction env send formData)
                   = ConsoleError [Str ''File is empty''] # rest"
    using assms
    by (simp add: uploadAction_FileEntry[where formData = formData and f = f] Let_def
          split: sum.splits)
next
  show "if name_f f = ''''
           then fst (uploadAction env send formData) = Inl (Error ''File name is required'')
           else sent (snd (uploadAction env send formData))
                  = [put_command (upload_params_of env formData f)]
                \<and> fst (uploadAction env send formData)
                  = (case send (s3Client env) (put_command (upload_params_of env formData f)) of
                       Inl e \<Rightarrow> Inl e | Inr _ \<Rightarrow> Inr ())"
  proof (cases "name_f f = ''''")
    case True
    with assms show ?thesis
      by (simp add: uploadAction_FileEntry[where formData = formData and f = f] Let_def)
  next
    case False
    with assms uploadAction_named_file[where formData = formData and f = f and env = env
             and send = send]
    show ?thesis by simp
  qed
qed

text \<open>For a missing file, whatever the environment and the provider, the handler logs
  \<^verbatim>\<open>File is required\<close>, throws at the size check and does nothing else.\<close>

lemma uploadAction_missing_file:
  assumes "formData ''file'' = None"
  shows "uploadAction env send formData
           = (Inl (TypeError ''Cannot read properties of null (reading 'size')''),
              [ConsoleError [Str ''File is required'']])"
  using assms by (simp add: uploadAction_def)

text \<open>
  Claim C6: in \<open>uploadAction\<close>, for every submission whose file is missing or empty, the
  handler only logs the condition and does not halt. The code breaks this for a missing
  file: the missing-file check logs and does not stop, and the size check that follows
  reads \<^verbatim>\<open>file.size\<close> on \<^verbatim>\<open>null\<close>. At a submission with no \<^verbatim>\<open>file\<close> field, against a
  provider that would accept the upload, the handler halts with the \<^verbatim>\<open>TypeError\<close> after
  its one log line, and no command is sent.
\<close>

theorem uploadAction_missing_file_halts:
  "uploadAction Map.empty (paged_provider 2 example_store) Map.empty
     = (Inl (TypeError ''Cannot read properties of null (reading 'size')''),
        [ConsoleError [Str ''File is required'']])
   \<and> sent (snd (uploadAction Map.empty (paged_provider 2 example_store) Map.empty)) = []"
  by (simp add: uploadAction_def)

subsection \<open>UploadPage\<close>















end
